theory Spec2Isabelle
  imports Complex_Main "HOL-Library.Sublist"
begin

section \<open>Python values and the builtins the adapters use\<close>

text \<open>
  Both adapters work on what \<^verbatim>\<open>response.json()\<close> returns: \<^verbatim>\<open>None\<close>, booleans, numbers,
  strings, lists and dicts. A \<^verbatim>\<open>str\<close> is kept as its UTF-8 bytes. A \<^verbatim>\<open>dict\<close> is the list of
  its items; lookups take the first entry of a key. A \<^verbatim>\<open>float\<close> is the real number it
  denotes (the code does no float arithmetic, only conversions and comparisons with 0);
  \<^verbatim>\<open>nan\<close> and the infinities are not values of the model.
\<close>

datatype pyval =
    PNone
  | PBool bool
  | PInt int
  | PFloat real
  | PStr string
  | PList "pyval list"
  | PDict "(string \<times> pyval) list"

text \<open>
  The exceptions that can leave the code. \<open>JSONDecodeError\<close> is the one of
  \<^verbatim>\<open>requests.exceptions\<close>, a subclass of \<^verbatim>\<open>RequestException\<close>; \<open>PyException\<close> is a plain
  \<^verbatim>\<open>Exception(message)\<close>. \<open>OutsideModel\<close> is not a Python exception: a builtin returns it
  on the arguments whose Python result this theory does not compute (the \<^verbatim>\<open>repr\<close> of
  floats and containers, \<^verbatim>\<open>float\<close> of a \<^verbatim>\<open>str\<close>, digits outside ASCII), so that nothing
  is asserted about them.
\<close>

datatype error =
    RequestException
  | JSONDecodeError
  | KeyError
  | TypeError
  | AttributeError
  | ValueError
  | PyException string
  | OutsideModel

definition ebind :: "error + 'a \<Rightarrow> ('a \<Rightarrow> error + 'b) \<Rightarrow> error + 'b" where
  "ebind r f = (case r of Inl e \<Rightarrow> Inl e | Inr v \<Rightarrow> f v)"

text \<open>\<^verbatim>\<open>bool(v)\<close>, as \<^verbatim>\<open>if v:\<close> takes it.\<close>

fun py_truthy :: "pyval \<Rightarrow> bool" where
  "py_truthy PNone = False"
| "py_truthy (PBool b) = b"
| "py_truthy (PInt n) = (n \<noteq> 0)"
| "py_truthy (PFloat r) = (r \<noteq> 0)"
| "py_truthy (PStr s) = (s \<noteq> [])"
| "py_truthy (PList xs) = (xs \<noteq> [])"
| "py_truthy (PDict kvs) = (kvs \<noteq> [])"

text \<open>\<^verbatim>\<open>v == n\<close> for an int literal \<open>n\<close>: numbers compare by value, and \<^verbatim>\<open>True == 1\<close>.\<close>

fun py_eq_int :: "pyval \<Rightarrow> int \<Rightarrow> bool" where
  "py_eq_int (PBool b) n = ((if b then 1 else 0) = n)"
| "py_eq_int (PInt m) n = (m = n)"
| "py_eq_int (PFloat r) n = (r = of_int n)"
| "py_eq_int _ n = False"

text \<open>\<^verbatim>\<open>v == s\<close> for a \<^verbatim>\<open>str\<close> \<open>s\<close>: only an equal \<^verbatim>\<open>str\<close> is equal to it.\<close>

definition py_eq_str :: "pyval \<Rightarrow> string \<Rightarrow> bool" where
  "py_eq_str v s = (v = PStr s)"

text \<open>\<^verbatim>\<open>v[k]\<close> for a \<^verbatim>\<open>str\<close> key.\<close>

fun py_getitem :: "pyval \<Rightarrow> string \<Rightarrow> error + pyval" where
  "py_getitem (PDict kvs) k = (case map_of kvs k of None \<Rightarrow> Inl KeyError | Some v \<Rightarrow> Inr v)"
| "py_getitem _ k = Inl TypeError"

text \<open>\<^verbatim>\<open>v.get(k, d)\<close>: only a dict has the method.\<close>

fun py_get :: "pyval \<Rightarrow> string \<Rightarrow> pyval \<Rightarrow> error + pyval" where
  "py_get (PDict kvs) k d = (case map_of kvs k of None \<Rightarrow> Inr d | Some v \<Rightarrow> Inr v)"
| "py_get _ k d = Inl AttributeError"

text \<open>The bytes of a UTF-8 string that continue a character.\<close>

definition utf8_cont :: "char \<Rightarrow> bool" where
  "utf8_cont c = (128 \<le> (of_char c :: nat) \<and> (of_char c :: nat) < 192)"

text \<open>The characters of a UTF-8 string, one string each.\<close>

function utf8_chars :: "string \<Rightarrow> string list" where
  "utf8_chars [] = []"
| "utf8_chars (c # cs) = (c # takeWhile utf8_cont cs) # utf8_chars (dropWhile utf8_cont cs)"
  by pat_completeness auto
termination
  by (relation "measure length") (simp_all add: length_dropWhile_le less_Suc_eq_le)

text \<open>What \<^verbatim>\<open>for x in v\<close> runs over.\<close>

fun py_iter :: "pyval \<Rightarrow> error + pyval list" where
  "py_iter (PList xs) = Inr xs"
| "py_iter (PDict kvs) = Inr (map PStr (remdups (map fst kvs)))"
| "py_iter (PStr s) = Inr (map PStr (utf8_chars s))"
| "py_iter _ = Inl TypeError"

text \<open>\<^verbatim>\<open>len(v)\<close>.\<close>

fun py_len :: "pyval \<Rightarrow> error + nat" where
  "py_len (PList xs) = Inr (length xs)"
| "py_len (PDict kvs) = Inr (length (remdups (map fst kvs)))"
| "py_len (PStr s) = Inr (length (utf8_chars s))"
| "py_len _ = Inl TypeError"

text \<open>\<^verbatim>\<open>k in v\<close> for a \<^verbatim>\<open>str\<close> \<open>k\<close>: a key of a dict, an element of a list, a substring of a string.\<close>

fun py_contains :: "string \<Rightarrow> pyval \<Rightarrow> error + bool" where
  "py_contains k (PDict kvs) = Inr (k \<in> set (map fst kvs))"
| "py_contains k (PList xs) = Inr (PStr k \<in> set xs)"
| "py_contains k (PStr s) = Inr (sublist k s)"
| "py_contains k _ = Inl TypeError"

subsection \<open>\<^verbatim>\<open>str\<close>, \<^verbatim>\<open>int\<close> and \<^verbatim>\<open>float\<close>\<close>

fun show_nat :: "nat \<Rightarrow> string" where
  "show_nat n = (if n < 10 then [char_of (48 + n)] else show_nat (n div 10) @ [char_of (48 + n mod 10)])"

definition show_int :: "int \<Rightarrow> string" where
  "show_int n = (if n < 0 then CHR ''-'' # show_nat (nat (- n)) else show_nat (nat n))"

fun py_str :: "pyval \<Rightarrow> error + string" where
  "py_str PNone = Inr ''None''"
| "py_str (PBool b) = Inr (if b then ''True'' else ''False'')"
| "py_str (PInt n) = Inr (show_int n)"
| "py_str (PStr s) = Inr s"
| "py_str _ = Inl OutsideModel"

definition is_digit :: "char \<Rightarrow> bool" where
  "is_digit c = (48 \<le> (of_char c :: nat) \<and> (of_char c :: nat) \<le> 57)"

definition is_space :: "char \<Rightarrow> bool" where
  "is_space c = ((of_char c :: nat) = 32 \<or> (9 \<le> (of_char c :: nat) \<and> (of_char c :: nat) \<le> 13))"

definition is_ascii :: "char \<Rightarrow> bool" where
  "is_ascii c = ((of_char c :: nat) < 128)"

text \<open>The digits of a decimal literal, in which single underscores may separate digits.\<close>

fun int_digits :: "string \<Rightarrow> string option" where
  "int_digits [] = None"
| "int_digits [c] = (if is_digit c then Some [c] else None)"
| "int_digits (c # d # cs) =
     (if is_digit c
      then map_option (Cons c) (if d = CHR ''_'' then int_digits cs else int_digits (d # cs))
      else None)"

definition digits_value :: "string \<Rightarrow> int" where
  "digits_value ds = foldl (\<lambda>a c. 10 * a + (int (of_char c) - 48)) 0 ds"

text \<open>
  \<^verbatim>\<open>int(s)\<close> for an ASCII string: whitespace around, a sign, digits. More than 4300 digits
  are refused by some versions of the interpreter and converted by others.
\<close>

definition int_of_ascii :: "string \<Rightarrow> error + int" where
  "int_of_ascii s =
     (let t = rev (dropWhile is_space (rev (dropWhile is_space s)));
          neg = (t \<noteq> [] \<and> hd t = CHR ''-'');
          body = (if t \<noteq> [] \<and> (hd t = CHR ''-'' \<or> hd t = CHR ''+'') then tl t else t)
      in case int_digits body of
           None \<Rightarrow> Inl ValueError
         | Some ds \<Rightarrow>
             if length ds > 4300 then Inl OutsideModel
             else Inr (if neg then - digits_value ds else digits_value ds))"

text \<open>
  \<^verbatim>\<open>int(s)\<close>: a character that is neither a space nor a decimal digit ends the literal
  with an error. The characters whose first byte is \<open>0xD0\<close> to \<open>0xD3\<close> are the Cyrillic
  block, which has neither; the other characters outside ASCII are not classified here.
\<close>

definition int_of_str :: "string \<Rightarrow> error + int" where
  "int_of_str s =
     (case dropWhile is_ascii s of
        [] \<Rightarrow> int_of_ascii s
      | c # _ \<Rightarrow> if 208 \<le> (of_char c :: nat) \<and> (of_char c :: nat) \<le> 211
                 then Inl ValueError else Inl OutsideModel)"

fun py_int :: "pyval \<Rightarrow> error + int" where
  "py_int (PBool b) = Inr (if b then 1 else 0)"
| "py_int (PInt n) = Inr n"
| "py_int (PFloat r) = Inr (if 0 \<le> r then \<lfloor>r\<rfloor> else \<lceil>r\<rceil>)"
| "py_int (PStr s) = int_of_str s"
| "py_int _ = Inl TypeError"

text \<open>
  \<^verbatim>\<open>float(v)\<close>. An int up to \<open>2 ^ 53\<close> is a float exactly; a larger one is rounded or refused.
\<close>

fun py_float :: "pyval \<Rightarrow> error + real" where
  "py_float (PBool b) = Inr (if b then 1 else 0)"
| "py_float (PInt n) = (if \<bar>n\<bar> \<le> 2 ^ 53 then Inr (of_int n) else Inl OutsideModel)"
| "py_float (PFloat r) = Inr r"
| "py_float (PStr s) = Inl OutsideModel"
| "py_float _ = Inl TypeError"

section \<open>The vacancy record and the two response parsers\<close>

text \<open>
  Modelled from the spec: the class \<^verbatim>\<open>Vacancy\<close> of \<^verbatim>\<open>src/models/Vacancy.py\<close> is not among the
  sources. Its constructor takes nine positional arguments; the spec describes it as an
  immutable value record of these nine fields, in this order.
\<close>

record vacancy =
  vacancy_id :: int
  title :: string
  employer_name :: string
  requirement_snippet :: string
  salary_from :: "real option"
  salary_to :: "real option"
  currency :: "string option"
  location_name :: string
  url :: string

text \<open>The placeholder literal of both parsers, nine Cyrillic letters and a space, in UTF-8.\<close>

definition no_data :: string where
  "no_data = [CHR 0xD0, CHR 0x9D, CHR 0xD0, CHR 0xB5, CHR 0xD1, CHR 0x82, CHR 0x20,
              CHR 0xD0, CHR 0xB4, CHR 0xD0, CHR 0xB0, CHR 0xD0, CHR 0xBD, CHR 0xD0, CHR 0xBD,
              CHR 0xD1, CHR 0x8B, CHR 0xD1, CHR 0x85]"

text \<open>\<^verbatim>\<open>f(v) if v is not None else None\<close>\<close>

definition unless_none :: "(pyval \<Rightarrow> error + 'a) \<Rightarrow> pyval \<Rightarrow> error + 'a option" where
  "unless_none f v = (if v \<noteq> PNone then ebind (f v) (\<lambda>r. Inr (Some r)) else Inr None)"

text \<open>\<^verbatim>\<open>f(v) if v != 0 else None\<close>\<close>

definition unless_zero :: "(pyval \<Rightarrow> error + 'a) \<Rightarrow> pyval \<Rightarrow> error + 'a option" where
  "unless_zero f v = (if \<not> py_eq_int v 0 then ebind (f v) (\<lambda>r. Inr (Some r)) else Inr None)"

text \<open>
  A loop whose body appends one element to a list, or raises:
  \<^verbatim>\<open>for x in xs: acc.append(f(x))\<close>.
\<close>

fun append_each :: "('a \<Rightarrow> error + 'b) \<Rightarrow> 'a list \<Rightarrow> 'b list \<Rightarrow> error + 'b list" where
  "append_each f [] acc = Inr acc"
| "append_each f (x # xs) acc =
     (case f x of Inl e \<Rightarrow> Inl e | Inr v \<Rightarrow> append_each f xs (acc @ [v]))"

subsection \<open>\<^verbatim>\<open>HhAPI._parse\<close>\<close>

text \<open>The salary triple of one item: the \<^verbatim>\<open>if salary: ... else: ...\<close> of the loop body.\<close>

definition hh_salary :: "pyval \<Rightarrow> error + (real option \<times> real option \<times> string option)" where
  "hh_salary item =
     ebind (py_get item ''salary'' (PDict [])) (\<lambda>salary.
       if py_truthy salary then
         ebind (ebind (py_get salary ''from'' PNone) (unless_none py_float)) (\<lambda>from_salary.
         ebind (ebind (py_get salary ''to'' PNone) (unless_none py_float)) (\<lambda>to_salary.
         ebind (ebind (py_get salary ''currency'' PNone) (unless_none py_str)) (\<lambda>currency.
         Inr (from_salary, to_salary, currency))))
       else Inr (None, None, None))"

text \<open>The body of the loop: the salary triple, then the constructor's arguments from left to right.\<close>

definition hh_parse_item :: "pyval \<Rightarrow> error + vacancy" where
  "hh_parse_item item =
     ebind (hh_salary item) (\<lambda>(from_salary, to_salary, currency).
     ebind (ebind (py_get item ''id'' (PStr no_data)) py_int) (\<lambda>a1.
     ebind (ebind (py_get item ''name'' (PStr no_data)) py_str) (\<lambda>a2.
     ebind (ebind (ebind (py_get item ''employer'' (PDict []))
                         (\<lambda>e. py_get e ''name'' (PStr no_data))) py_str) (\<lambda>a3.
     ebind (ebind (ebind (py_get item ''snippet'' (PStr no_data))
                         (\<lambda>sn. py_get sn ''requirement'' (PStr no_data))) py_str) (\<lambda>a4.
     ebind (ebind (ebind (py_get item ''area'' (PDict []))
                         (\<lambda>a. py_get a ''name'' (PStr no_data))) py_str) (\<lambda>a8.
     ebind (ebind (py_get item ''alternate_url'' (PStr no_data)) py_str) (\<lambda>a9.
     Inr \<lparr>vacancy_id = a1, title = a2, employer_name = a3, requirement_snippet = a4,
          salary_from = from_salary, salary_to = to_salary, currency = currency,
          location_name = a8, url = a9\<rparr>)))))))"

definition hh_parse :: "pyval \<Rightarrow> error + vacancy list" where
  "hh_parse data_from_json =
     ebind (py_get data_from_json ''items'' PNone) (\<lambda>items.
     ebind (py_iter items) (\<lambda>xs. append_each hh_parse_item xs []))"

subsection \<open>\<^verbatim>\<open>SuperJobAPI._parse\<close>\<close>

definition sj_parse_item :: "pyval \<Rightarrow> error + vacancy" where
  "sj_parse_item item =
     ebind (ebind (py_get item ''payment_from'' PNone) (unless_zero py_float)) (\<lambda>from_salary.
     ebind (ebind (py_get item ''payment_to'' PNone) (unless_zero py_float)) (\<lambda>to_salary.
     ebind (ebind (py_get item ''currency'' PNone) py_str) (\<lambda>currency.
     ebind (ebind (py_get item ''id'' (PStr no_data)) py_int) (\<lambda>a1.
     ebind (ebind (py_get item ''profession'' (PStr no_data)) py_str) (\<lambda>a2.
     ebind (ebind (ebind (py_get item ''employer'' (PDict []))
                         (\<lambda>e. py_get e ''name'' (PStr no_data))) py_str) (\<lambda>a3.
     ebind (ebind (py_get item ''candidat'' (PStr no_data)) py_str) (\<lambda>a4.
     ebind (ebind (ebind (py_get item ''town'' (PDict []))
                         (\<lambda>t. py_get t ''title'' (PStr no_data))) py_str) (\<lambda>a8.
     ebind (ebind (py_get item ''link'' (PStr no_data)) py_str) (\<lambda>a9.
     Inr \<lparr>vacancy_id = a1, title = a2, employer_name = a3, requirement_snippet = a4,
          salary_from = from_salary, salary_to = to_salary, currency = Some currency,
          location_name = a8, url = a9\<rparr>)))))))))"

definition sj_parse :: "pyval \<Rightarrow> error + vacancy list" where
  "sj_parse raw_response =
     ebind (py_get raw_response ''objects'' PNone) (\<lambda>objects.
     ebind (py_iter objects) (\<lambda>xs. append_each sj_parse_item xs []))"

section \<open>The network\<close>

text \<open>
  \<^verbatim>\<open>requests.get\<close> either raises a \<^verbatim>\<open>RequestException\<close> (connection refused, timeout, DNS
  failure) or returns a response with a status code and a body; \<^verbatim>\<open>response.json()\<close>
  returns the decoded body, or raises \<open>JSONDecodeError\<close> when the body is not JSON
  (the body is then \<open>None\<close> here). The world holds what the remote services answer to
  each request, the process environment, and the requests sent so far.
\<close>

record request =
  req_url :: string
  req_params :: "(string \<times> pyval) list"
  req_headers :: "(string \<times> pyval) list"

datatype http_outcome = TransportFailure | Response int "pyval option"

record world =
  net :: "request \<Rightarrow> http_outcome"
  environ :: "string \<Rightarrow> string option"
  sent :: "request list"

definition requests_get :: "request \<Rightarrow> world \<Rightarrow> (error + int \<times> pyval option) \<times> world" where
  "requests_get r w =
     (case net w r of TransportFailure \<Rightarrow> Inl RequestException | Response c b \<Rightarrow> Inr (c, b),
      w\<lparr>sent := sent w @ [r]\<rparr>)"

definition response_json :: "int \<times> pyval option \<Rightarrow> error + pyval" where
  "response_json response = (case snd response of None \<Rightarrow> Inl JSONDecodeError | Some d \<Rightarrow> Inr d)"

definition os_getenv :: "string \<Rightarrow> world \<Rightarrow> pyval" where
  "os_getenv k w = (case environ w k of None \<Rightarrow> PNone | Some v \<Rightarrow> PStr v)"

definition is_RequestException :: "error \<Rightarrow> bool" where
  "is_RequestException e = (e = RequestException \<or> e = JSONDecodeError)"

text \<open>\<^verbatim>\<open>try: ... except requests.exceptions.RequestException: return d\<close>\<close>

definition except_RequestException :: "error + 'a \<Rightarrow> 'a \<Rightarrow> error + 'a" where
  "except_RequestException r d =
     (case r of Inl e \<Rightarrow> if is_RequestException e then Inr d else Inl e | Inr v \<Rightarrow> Inr v)"

section \<open>The adapters\<close>

text \<open>
  \<^verbatim>\<open>get_request\<close> returns a list of vacancies, or \<^verbatim>\<open>None\<close> where the function body ends
  without a \<^verbatim>\<open>return\<close> (\<open>Inr None\<close>), or raises (\<open>Inl\<close>). What it prints is not modelled.
\<close>

subsection \<open>\<^verbatim>\<open>HhAPI.get_request\<close>\<close>

definition hh_base_url :: string where
  "hh_base_url = ''https://api.hh.ru''"

definition hh_request :: "pyval \<Rightarrow> pyval \<Rightarrow> pyval \<Rightarrow> pyval \<Rightarrow> pyval \<Rightarrow> request" where
  "hh_request search_term city experience count order_by =
     \<lparr>req_url = hh_base_url @ ''/vacancies'',
      req_params = [(''text'', search_term), (''area'', city), (''experience'', experience),
                    (''per_page'', count), (''order_by'', order_by)],
      req_headers = []\<rparr>"

definition hh_get_request ::
  "pyval \<Rightarrow> pyval \<Rightarrow> pyval \<Rightarrow> pyval \<Rightarrow> pyval \<Rightarrow> world \<Rightarrow> (error + vacancy list option) \<times> world" where
  "hh_get_request search_term city experience count order_by w =
     (let (r, w') = requests_get (hh_request search_term city experience count order_by) w
      in (except_RequestException
            (ebind r (\<lambda>response.
               if fst response = 200 then
                 ebind (response_json response) (\<lambda>data_from_json.
                 ebind (py_getitem data_from_json ''found'') (\<lambda>found.
                   if py_eq_int found 0 then Inr (Some [])
                   else ebind (hh_parse data_from_json) (\<lambda>vs. Inr (Some vs))))
               else if fst response = 404 then
                 Inl (PyException ''Request failed (404 status code)'')
               else Inr None))
            (Some []),
          w'))"

subsection \<open>\<^verbatim>\<open>SuperJobAPI.get_request\<close>\<close>

definition sj_base_url :: string where
  "sj_base_url = ''https://api.superjob.ru/2.0/vacancies/''"

definition sj_request :: "pyval \<Rightarrow> pyval \<Rightarrow> pyval \<Rightarrow> pyval \<Rightarrow> pyval \<Rightarrow> world \<Rightarrow> request" where
  "sj_request search_term city experience count order_by w =
     \<lparr>req_url = sj_base_url,
      req_params = [(''keyword'', search_term), (''town'', city), (''experience'', experience),
                    (''count'', count), (''order_field'', order_by)],
      req_headers = [(''X-Api-App-Id'', os_getenv ''SJ_API_KEY'' w)]\<rparr>"

definition sj_get_request ::
  "pyval \<Rightarrow> pyval \<Rightarrow> pyval \<Rightarrow> pyval \<Rightarrow> pyval \<Rightarrow> world \<Rightarrow> (error + vacancy list option) \<times> world" where
  "sj_get_request search_term city experience count order_by w =
     (let (r, w') = requests_get (sj_request search_term city experience count order_by w) w
      in (except_RequestException
            (ebind r (\<lambda>response.
               if fst response = 200 then
                 ebind (response_json response) (\<lambda>data.
                 ebind (py_len data) (\<lambda>n.
                   if n = 0 then Inr (Some [])
                   else ebind (sj_parse data) (\<lambda>vs. Inr (Some vs))))
               else if fst response = 404 then
                 Inl (PyException ''Request failed (404 status code)'')
               else Inr None))
            (Some []),
          w'))"

section \<open>The controllers\<close>

text \<open>
  A \<^verbatim>\<open>for\<close> loop whose body may \<^verbatim>\<open>return\<close>: the body gives \<open>Some v\<close> when it returns \<open>v\<close>,
  \<open>None\<close> when it falls through to the next element.
\<close>

fun for_loop :: "('a \<Rightarrow> error + 'r option) \<Rightarrow> 'a list \<Rightarrow> error + 'r option" where
  "for_loop body [] = Inr None"
| "for_loop body (x # xs) =
     (case body x of
        Inl e \<Rightarrow> Inl e
      | Inr (Some v) \<Rightarrow> Inr (Some v)
      | Inr None \<Rightarrow> for_loop body xs)"

text \<open>The end of a function body: \<^verbatim>\<open>None\<close> unless a \<^verbatim>\<open>return\<close> was reached.\<close>

definition returned :: "pyval option \<Rightarrow> pyval" where
  "returned r = (case r of None \<Rightarrow> PNone | Some v \<Rightarrow> v)"

subsection \<open>\<^verbatim>\<open>ControllerHH\<close>\<close>

definition region_body :: "string \<Rightarrow> pyval \<Rightarrow> error + pyval option" where
  "region_body city region =
     ebind (py_getitem region ''name'') (\<lambda>n.
       if py_eq_str n city then ebind (py_getitem region ''id'') (\<lambda>i. Inr (Some i))
       else Inr None)"

text \<open>\<^verbatim>\<open>"areas" in country and country["areas"]\<close>, as the \<^verbatim>\<open>if\<close> takes it.\<close>

definition has_areas :: "pyval \<Rightarrow> error + bool" where
  "has_areas country =
     ebind (py_contains ''areas'' country) (\<lambda>c.
       if c then ebind (py_getitem country ''areas'') (\<lambda>a. Inr (py_truthy a)) else Inr False)"

definition country_body :: "string \<Rightarrow> pyval \<Rightarrow> error + pyval option" where
  "country_body city country =
     ebind (has_areas country) (\<lambda>c.
       if c then
         ebind (py_getitem country ''areas'') (\<lambda>a.
         ebind (py_iter a) (for_loop (region_body city)))
       else
         ebind (py_getitem country ''name'') (\<lambda>n.
           if py_eq_str n city then ebind (py_getitem country ''id'') (\<lambda>i. Inr (Some i))
           else Inr None))"

definition area_body :: "string \<Rightarrow> pyval \<Rightarrow> error + pyval option" where
  "area_body city area =
     ebind (py_getitem area ''areas'') (\<lambda>a.
     ebind (py_iter a) (for_loop (country_body city)))"

definition areas_request :: request where
  "areas_request = \<lparr>req_url = ''https://api.hh.ru/areas'', req_params = [], req_headers = []\<rparr>"

definition get_city_id :: "string \<Rightarrow> world \<Rightarrow> (error + pyval) \<times> world" where
  "get_city_id city w =
     (if length city = 0 then (Inr PNone, w)
      else
        (let (r, w') = requests_get areas_request w
         in (ebind (ebind r response_json) (\<lambda>response.
             ebind (py_iter response) (\<lambda>areas.
             ebind (for_loop (area_body city) areas) (\<lambda>res. Inr (returned res)))),
             w')))"

definition hh_order_by :: "pyval \<Rightarrow> pyval" where
  "hh_order_by param =
     (if py_eq_str param ''1'' then PStr ''publication_time''
      else if py_eq_str param ''2'' then PStr ''salary_desc''
      else PNone)"

subsection \<open>\<^verbatim>\<open>ControllerSuperJob\<close>\<close>

definition towns_request :: "world \<Rightarrow> request" where
  "towns_request w =
     \<lparr>req_url = ''https://api.superjob.ru/2.0/towns/'', req_params = [],
      req_headers = [(''X-Api-App-Id'', os_getenv ''SJ_API_KEY'' w)]\<rparr>"

definition town_body :: "string \<Rightarrow> pyval \<Rightarrow> error + pyval option" where
  "town_body city item =
     ebind (py_getitem item ''title'') (\<lambda>t.
       if py_eq_str t city then Inr (Some (PStr city)) else Inr None)"

definition validate_city :: "string \<Rightarrow> world \<Rightarrow> (error + pyval) \<times> world" where
  "validate_city city w =
     (if length city = 0 then (Inr PNone, w)
      else
        (let (r, w') = requests_get (towns_request w) w
         in (ebind (ebind r response_json) (\<lambda>response.
             ebind (py_getitem response ''objects'') (\<lambda>objects.
             ebind (py_iter objects) (\<lambda>items.
             ebind (for_loop (town_body city) items) (\<lambda>res. Inr (returned res))))),
             w')))"

definition sj_order_by :: "pyval \<Rightarrow> pyval" where
  "sj_order_by param =
     (if py_eq_str param ''1'' then PStr ''date''
      else if py_eq_str param ''2'' then PStr ''payment_desc''
      else PStr ''relevance'')"

section \<open>Vocabulary of the statements\<close>

subsection \<open>Payload items\<close>

text \<open>
  The value of a key of a JSON object, \<^verbatim>\<open>null\<close> when the key is missing or the value is
  not an object; the items of a Board A payload and the objects of a Board B payload.
\<close>

definition field :: "pyval \<Rightarrow> string \<Rightarrow> pyval" where
  "field v k = (case v of PDict kvs \<Rightarrow> (case map_of kvs k of Some x \<Rightarrow> x | None \<Rightarrow> PNone) | _ \<Rightarrow> PNone)"

definition hh_items :: "pyval \<Rightarrow> pyval list" where
  "hh_items d = (case py_iter (field d ''items'') of Inr xs \<Rightarrow> xs | Inl _ \<Rightarrow> [])"

definition sj_items :: "pyval \<Rightarrow> pyval list" where
  "sj_items d = (case py_iter (field d ''objects'') of Inr xs \<Rightarrow> xs | Inl _ \<Rightarrow> [])"

text \<open>
  A Board A item carries no salary information: the key \<^verbatim>\<open>salary\<close> is missing or \<^verbatim>\<open>null\<close>,
  or it is an object in which \<^verbatim>\<open>from\<close>, \<^verbatim>\<open>to\<close> and \<^verbatim>\<open>currency\<close> are each missing or \<^verbatim>\<open>null\<close>.
\<close>

definition absent_or_null :: "(string \<times> pyval) list \<Rightarrow> string \<Rightarrow> bool" where
  "absent_or_null kvs k = (map_of kvs k = None \<or> map_of kvs k = Some PNone)"

definition hh_no_salary :: "pyval \<Rightarrow> bool" where
  "hh_no_salary item =
     (case item of
        PDict kvs \<Rightarrow>
          (case map_of kvs ''salary'' of
             None \<Rightarrow> True
           | Some PNone \<Rightarrow> True
           | Some (PDict s) \<Rightarrow>
               absent_or_null s ''from'' \<and> absent_or_null s ''to'' \<and> absent_or_null s ''currency''
           | Some _ \<Rightarrow> False)
      | _ \<Rightarrow> False)"

text \<open>
  A Board B item carries no salary data: \<^verbatim>\<open>payment_from\<close> and \<^verbatim>\<open>payment_to\<close> are both equal
  to 0, which is how the provider writes a bound that is not given.
\<close>

definition sj_no_salary :: "pyval \<Rightarrow> bool" where
  "sj_no_salary item =
     (py_eq_int (field item ''payment_from'') 0 \<and> py_eq_int (field item ''payment_to'') 0)"

text \<open>
  How a salary bound \<open>b\<close> of a vacancy depends on its source value \<open>x\<close>. Board A: the
  bound is there exactly when the source value is not \<^verbatim>\<open>null\<close>. Board B: exactly when it is
  neither \<^verbatim>\<open>null\<close> nor equal to 0. In both, a bound that is there is \<^verbatim>\<open>float(x)\<close>.
\<close>

definition hh_bound_rule :: "pyval \<Rightarrow> real option \<Rightarrow> bool" where
  "hh_bound_rule x b =
     ((b \<noteq> None) = (x \<noteq> PNone) \<and> (\<forall>r. b = Some r \<longrightarrow> py_float x = Inr r))"

definition sj_bound_rule :: "pyval \<Rightarrow> real option \<Rightarrow> bool" where
  "sj_bound_rule x b =
     ((b \<noteq> None) = (x \<noteq> PNone \<and> \<not> py_eq_int x 0) \<and> (\<forall>r. b = Some r \<longrightarrow> py_float x = Inr r))"

subsection \<open>Town lists and region catalogs\<close>

definition has_title :: "pyval \<Rightarrow> bool" where
  "has_title item = (\<not> isl (py_getitem item ''title''))"

definition titled :: "string \<Rightarrow> pyval \<Rightarrow> bool" where
  "titled city item = (py_getitem item ''title'' = Inr (PStr city))"

definition has_id_name :: "pyval \<Rightarrow> bool" where
  "has_id_name n = (\<not> isl (py_getitem n ''id'') \<and> \<not> isl (py_getitem n ''name''))"

definition named :: "string \<Rightarrow> pyval \<Rightarrow> bool" where
  "named city n = (py_getitem n ''name'' = Inr (PStr city))"

definition node_id :: "pyval \<Rightarrow> pyval" where
  "node_id n = (case py_getitem n ''id'' of Inr i \<Rightarrow> i | Inl _ \<Rightarrow> PNone)"

definition sub_areas :: "pyval \<Rightarrow> pyval list" where
  "sub_areas n = (case py_getitem n ''areas'' of Inr (PList xs) \<Rightarrow> xs | _ \<Rightarrow> [])"

definition wf_country :: "pyval \<Rightarrow> bool" where
  "wf_country c =
     (has_id_name c \<and>
      (case py_getitem c ''areas'' of
         Inr (PList rs) \<Rightarrow> list_all has_id_name rs
       | Inr _ \<Rightarrow> False
       | Inl _ \<Rightarrow> True))"

definition wf_area :: "pyval \<Rightarrow> bool" where
  "wf_area a =
     (case py_getitem a ''areas'' of Inr (PList cs) \<Rightarrow> list_all wf_country cs | _ \<Rightarrow> False)"

definition searched_of_country :: "pyval \<Rightarrow> pyval list" where
  "searched_of_country c = (if sub_areas c \<noteq> [] then sub_areas c else [c])"

definition searched :: "pyval list \<Rightarrow> pyval list" where
  "searched areas = concat (map (\<lambda>a. concat (map searched_of_country (sub_areas a))) areas)"

definition first_match :: "string \<Rightarrow> pyval list \<Rightarrow> pyval" where
  "first_match city ns = (case find (named city) ns of None \<Rightarrow> PNone | Some n \<Rightarrow> node_id n)"

section \<open>Worlds and payloads used as examples\<close>

text \<open>A world in which every request gets the same outcome, with an empty environment.\<close>

definition world_answering :: "http_outcome \<Rightarrow> world" where
  "world_answering out = \<lparr>net = (\<lambda>r. out), environ = (\<lambda>k. None), sent = []\<rparr>"

definition towns_example :: pyval where
  "towns_example =
     PDict [(''objects'', PList [PDict [(''id'', PInt 4), (''title'', PStr ''Moscow'')],
                                 PDict [(''id'', PInt 14), (''title'', PStr ''Kazan'')]]),
            (''total'', PInt 2)]"

definition catalog_example :: "pyval list" where
  "catalog_example =
     [PDict [(''id'', PStr ''113''), (''parent_id'', PNone), (''name'', PStr ''Russia''),
             (''areas'', PList
                [PDict [(''id'', PStr ''1''), (''parent_id'', PStr ''113''),
                        (''name'', PStr ''Moscow''), (''areas'', PList [])],
                 PDict [(''id'', PStr ''2019''), (''parent_id'', PStr ''113''),
                        (''name'', PStr ''Moscow Oblast''),
                        (''areas'', PList
                           [PDict [(''id'', PStr ''2034''), (''parent_id'', PStr ''2019''),
                                   (''name'', PStr ''Khimki''), (''areas'', PList [])]])]])],
      PDict [(''id'', PStr ''1001''), (''parent_id'', PNone), (''name'', PStr ''Other regions''),
             (''areas'', PList [])]]"

definition hh_item_example :: "pyval \<Rightarrow> pyval" where
  "hh_item_example salary =
     PDict [(''id'', PStr ''93353''), (''name'', PStr ''Python developer''),
            (''employer'', PDict [(''id'', PStr ''1455''), (''name'', PStr ''Acme'')]),
            (''snippet'', PDict [(''requirement'', PStr ''Django''), (''responsibility'', PNone)]),
            (''salary'', salary),
            (''area'', PDict [(''id'', PStr ''1''), (''name'', PStr ''Moscow'')]),
            (''alternate_url'', PStr ''https://hh.ru/vacancy/93353'')]"

definition hh_payload_example :: "pyval \<Rightarrow> pyval" where
  "hh_payload_example salary = PDict [(''items'', PList [hh_item_example salary]), (''found'', PInt 1)]"

definition hh_vacancy_example :: "real option \<Rightarrow> real option \<Rightarrow> string option \<Rightarrow> vacancy" where
  "hh_vacancy_example f t c =
     \<lparr>vacancy_id = 93353, title = ''Python developer'', employer_name = ''Acme'',
      requirement_snippet = ''Django'', salary_from = f, salary_to = t, currency = c,
      location_name = ''Moscow'', url = ''https://hh.ru/vacancy/93353''\<rparr>"

definition sj_item_example :: "(string \<times> pyval) list \<Rightarrow> pyval" where
  "sj_item_example payment =
     PDict ([(''id'', PInt 46210), (''profession'', PStr ''Python developer''),
             (''employer'', PDict [(''id'', PInt 7), (''name'', PStr ''Acme'')]),
             (''candidat'', PStr ''Django''),
             (''town'', PDict [(''id'', PInt 4), (''title'', PStr ''Moscow'')]),
             (''link'', PStr ''https://www.superjob.ru/vakansii/46210.html'')] @ payment)"

definition sj_payload_example :: "(string \<times> pyval) list \<Rightarrow> pyval" where
  "sj_payload_example payment = PDict [(''objects'', PList [sj_item_example payment]), (''total'', PInt 1)]"

definition sj_vacancy_example :: "real option \<Rightarrow> real option \<Rightarrow> string option \<Rightarrow> vacancy" where
  "sj_vacancy_example f t c =
     \<lparr>vacancy_id = 46210, title = ''Python developer'', employer_name = ''Acme'',
      requirement_snippet = ''Django'', salary_from = f, salary_to = t, currency = c,
      location_name = ''Moscow'', url = ''https://www.superjob.ru/vakansii/46210.html''\<rparr>"

definition hh_item_without_snippet :: pyval where
  "hh_item_without_snippet =
     PDict [(''id'', PStr ''93353''), (''name'', PStr ''Python developer''),
            (''employer'', PDict [(''id'', PStr ''1455''), (''name'', PStr ''Acme'')]),
            (''salary'', PNone),
            (''area'', PDict [(''id'', PStr ''1''), (''name'', PStr ''Moscow'')]),
            (''alternate_url'', PStr ''https://hh.ru/vacancy/93353'')]"


section \<open>Status codes and transport failures\<close>

text \<open>
  C5. When the HTTP call of either adapter raises a transport-level failure,
  \<^verbatim>\<open>get_request\<close> returns the empty list; and in no world at all does \<^verbatim>\<open>get_request\<close>
  raise a \<^verbatim>\<open>RequestException\<close> to its caller.
\<close>

theorem get_request_transport_failure:
  "(net w (hh_request st c e n ob) = TransportFailure \<longrightarrow>
      fst (hh_get_request st c e n ob w) = Inr (Some []))
   \<and> (net w (sj_request st c e n ob w) = TransportFailure \<longrightarrow>
      fst (sj_get_request st c e n ob w) = Inr (Some []))
   \<and> fst (hh_get_request st c e n ob w) \<noteq> Inl RequestException
   \<and> fst (sj_get_request st c e n ob w) \<noteq> Inl RequestException"
  by (simp add: hh_get_request_def sj_get_request_def requests_get_def ebind_def
      except_RequestException_def is_RequestException_def
      split: http_outcome.splits sum.splits prod.splits)

theorem get_request_transport_failure_witness:
  "net (world_answering TransportFailure) (hh_request (PStr ''python'') PNone PNone PNone PNone)
     = TransportFailure
   \<and> fst (hh_get_request (PStr ''python'') PNone PNone PNone PNone
            (world_answering TransportFailure)) = Inr (Some [])
   \<and> net (world_answering TransportFailure)
        (sj_request (PStr ''python'') PNone PNone PNone PNone (world_answering TransportFailure))
     = TransportFailure
   \<and> fst (sj_get_request (PStr ''python'') PNone PNone PNone PNone
            (world_answering TransportFailure)) = Inr (Some [])"
  using get_request_transport_failure
          [of "world_answering TransportFailure" "PStr ''python''" PNone PNone PNone PNone]
  by (simp add: world_answering_def)

text \<open>
  C6. A response with status 404 makes \<^verbatim>\<open>get_request\<close> of either adapter raise the
  exception \<^verbatim>\<open>Exception("Request failed (404 status code)")\<close>, which reaches the caller: the
  result is neither the empty list nor any other value.
\<close>

theorem get_request_404:
  "(net w (hh_request st c e n ob) = Response 404 b \<longrightarrow>
      fst (hh_get_request st c e n ob w) = Inl (PyException ''Request failed (404 status code)''))
   \<and> (net w (sj_request st c e n ob w) = Response 404 b' \<longrightarrow>
      fst (sj_get_request st c e n ob w) = Inl (PyException ''Request failed (404 status code)''))"
  by (simp add: hh_get_request_def sj_get_request_def requests_get_def ebind_def
      except_RequestException_def is_RequestException_def)

theorem get_request_404_witness:
  "net (world_answering (Response 404 None)) (hh_request (PStr ''python'') PNone PNone PNone PNone)
     = Response 404 None
   \<and> fst (hh_get_request (PStr ''python'') PNone PNone PNone PNone
            (world_answering (Response 404 None)))
     = Inl (PyException ''Request failed (404 status code)'')
   \<and> net (world_answering (Response 404 None))
        (sj_request (PStr ''python'') PNone PNone PNone PNone (world_answering (Response 404 None)))
     = Response 404 None
   \<and> fst (sj_get_request (PStr ''python'') PNone PNone PNone PNone
            (world_answering (Response 404 None)))
     = Inl (PyException ''Request failed (404 status code)'')"
  using get_request_404
          [of "world_answering (Response 404 None)" "PStr ''python''" PNone PNone PNone PNone
              None None]
  by (simp add: world_answering_def)

text \<open>
  C10. For every status code other than 200 and 404, \<^verbatim>\<open>get_request\<close> of either adapter
  takes neither branch and returns \<^verbatim>\<open>None\<close>: not a list of vacancies, and not an error.
\<close>

theorem get_request_other_status:
  "code \<noteq> 200 \<Longrightarrow> code \<noteq> 404 \<Longrightarrow>
   (net w (hh_request st c e n ob) = Response code b \<longrightarrow>
      fst (hh_get_request st c e n ob w) = Inr None)
   \<and> (net w (sj_request st c e n ob w) = Response code b' \<longrightarrow>
      fst (sj_get_request st c e n ob w) = Inr None)"
  by (simp add: hh_get_request_def sj_get_request_def requests_get_def ebind_def
      except_RequestException_def is_RequestException_def)

theorem get_request_other_status_witness:
  "(500::int) \<noteq> 200 \<and> (500::int) \<noteq> 404
   \<and> net (world_answering (Response 500 None)) (hh_request (PStr ''python'') PNone PNone PNone PNone)
     = Response 500 None
   \<and> fst (hh_get_request (PStr ''python'') PNone PNone PNone PNone
            (world_answering (Response 500 None))) = Inr None
   \<and> net (world_answering (Response 500 None))
        (sj_request (PStr ''python'') PNone PNone PNone PNone (world_answering (Response 500 None)))
     = Response 500 None
   \<and> fst (sj_get_request (PStr ''python'') PNone PNone PNone PNone
            (world_answering (Response 500 None))) = Inr None"
  using get_request_other_status
          [of 500 "world_answering (Response 500 None)" "PStr ''python''" PNone PNone PNone PNone
              None None]
  by (simp add: world_answering_def)

text \<open>
  C9. Board A: for every response with status 200 whose payload is a dict with
  \<^verbatim>\<open>found == 0\<close>, \<^verbatim>\<open>get_request\<close> returns the empty list.
\<close>

theorem hh_get_request_found_zero:
  "net w (hh_request st c e n ob) = Response 200 (Some d) \<Longrightarrow>
   py_getitem d ''found'' = Inr f \<Longrightarrow> py_eq_int f 0 \<Longrightarrow>
   fst (hh_get_request st c e n ob w) = Inr (Some [])"
  by (simp add: hh_get_request_def requests_get_def ebind_def response_json_def
      except_RequestException_def is_RequestException_def)

theorem hh_get_request_found_zero_witness:
  "net (world_answering (Response 200 (Some (PDict [(''items'', PList []), (''found'', PInt 0)]))))
       (hh_request (PStr ''python'') PNone PNone PNone PNone)
     = Response 200 (Some (PDict [(''items'', PList []), (''found'', PInt 0)]))
   \<and> py_getitem (PDict [(''items'', PList []), (''found'', PInt 0)]) ''found'' = Inr (PInt 0)
   \<and> py_eq_int (PInt 0) 0
   \<and> fst (hh_get_request (PStr ''python'') PNone PNone PNone PNone
        (world_answering (Response 200 (Some (PDict [(''items'', PList []), (''found'', PInt 0)])))))
     = Inr (Some [])"
  using hh_get_request_found_zero
          [of "world_answering (Response 200 (Some (PDict [(''items'', PList []), (''found'', PInt 0)])))"
              "PStr ''python''" PNone PNone PNone PNone
              "PDict [(''items'', PList []), (''found'', PInt 0)]" "PInt 0"]
  by (simp add: world_answering_def)

section \<open>Sort mapping\<close>

text \<open>
  C7. Board A maps \<^verbatim>\<open>"1"\<close> to \<^verbatim>\<open>publication_time\<close>, \<^verbatim>\<open>"2"\<close> to \<^verbatim>\<open>salary_desc\<close> and every other
  argument, \<^verbatim>\<open>None\<close> included, to \<^verbatim>\<open>None\<close>; Board B maps \<^verbatim>\<open>"1"\<close> to \<^verbatim>\<open>date\<close>, \<^verbatim>\<open>"2"\<close> to
  \<^verbatim>\<open>payment_desc\<close> and every other argument to \<^verbatim>\<open>relevance\<close>.
\<close>

theorem order_by_mapping:
  "hh_order_by (PStr ''1'') = PStr ''publication_time''
   \<and> hh_order_by (PStr ''2'') = PStr ''salary_desc''
   \<and> (p \<noteq> PStr ''1'' \<and> p \<noteq> PStr ''2'' \<longrightarrow> hh_order_by p = PNone)
   \<and> sj_order_by (PStr ''1'') = PStr ''date''
   \<and> sj_order_by (PStr ''2'') = PStr ''payment_desc''
   \<and> (p \<noteq> PStr ''1'' \<and> p \<noteq> PStr ''2'' \<longrightarrow> sj_order_by p = PStr ''relevance'')"
  by (simp add: hh_order_by_def sj_order_by_def py_eq_str_def)

theorem order_by_mapping_witness:
  "PNone \<noteq> PStr ''1'' \<and> PNone \<noteq> PStr ''2''
   \<and> hh_order_by PNone = PNone \<and> sj_order_by PNone = PStr ''relevance''"
  using order_by_mapping [of PNone] by simp

section \<open>Location resolution\<close>

subsection \<open>Board B: \<^verbatim>\<open>validate_city\<close>\<close>

lemma for_loop_town:
  "list_all has_title items \<Longrightarrow>
   for_loop (town_body city) items =
     Inr (if list_ex (titled city) items then Some (PStr city) else None)"
  by (induction items)
     (auto simp: town_body_def ebind_def has_title_def titled_def py_eq_str_def
           split: sum.splits)

text \<open>
  C8. Board B location resolution. With an empty city name \<^verbatim>\<open>validate_city\<close> returns \<^verbatim>\<open>None\<close>
  and sends no request. With a non-empty one it sends one request for the town list, and for
  every town list whose entries all have a \<^verbatim>\<open>title\<close> it returns the city name itself when
  some title is equal to it, character by character, and \<^verbatim>\<open>None\<close> otherwise: so a name that
  differs from every title, be it only in case or in whitespace, gives \<^verbatim>\<open>None\<close>.
\<close>

theorem validate_city_exact_match:
  "validate_city [] w = (Inr PNone, w)
   \<and> (city \<noteq> [] \<and> net w (towns_request w) = Response code (Some d)
        \<and> py_getitem d ''objects'' = Inr (PList items) \<and> list_all has_title items \<longrightarrow>
      validate_city city w =
        (Inr (if list_ex (titled city) items then PStr city else PNone),
         w\<lparr>sent := sent w @ [towns_request w]\<rparr>))"
  by (simp add: validate_city_def requests_get_def response_json_def ebind_def for_loop_town
      returned_def)

theorem validate_city_exact_match_witness:
  "validate_city ''moscow'' (world_answering (Response 200 (Some towns_example)))
     = (Inr PNone,
        (world_answering (Response 200 (Some towns_example)))
          \<lparr>sent := [towns_request (world_answering (Response 200 (Some towns_example)))]\<rparr>)
   \<and> fst (validate_city ''Moscow '' (world_answering (Response 200 (Some towns_example)))) = Inr PNone
   \<and> fst (validate_city ''Moscow'' (world_answering (Response 200 (Some towns_example))))
       = Inr (PStr ''Moscow'')"
  using validate_city_exact_match
          [of "world_answering (Response 200 (Some towns_example))" "''moscow''" 200 towns_example
              "[PDict [(''id'', PInt 4), (''title'', PStr ''Moscow'')],
                PDict [(''id'', PInt 14), (''title'', PStr ''Kazan'')]]"]
        validate_city_exact_match
          [of "world_answering (Response 200 (Some towns_example))" "''Moscow ''" 200 towns_example
              "[PDict [(''id'', PInt 4), (''title'', PStr ''Moscow'')],
                PDict [(''id'', PInt 14), (''title'', PStr ''Kazan'')]]"]
        validate_city_exact_match
          [of "world_answering (Response 200 (Some towns_example))" "''Moscow''" 200 towns_example
              "[PDict [(''id'', PInt 4), (''title'', PStr ''Moscow'')],
                PDict [(''id'', PInt 14), (''title'', PStr ''Kazan'')]]"]
  by (simp add: world_answering_def towns_example_def has_title_def titled_def)

subsection \<open>Board A: \<^verbatim>\<open>get_city_id\<close>\<close>

lemma find_append_case:
  "find P (xs @ ys) = (case find P xs of None \<Rightarrow> find P ys | Some x \<Rightarrow> Some x)"
  by (induction xs) auto

lemma for_loop_concat:
  "(\<And>x. x \<in> set xs \<Longrightarrow> body x = Inr (map_option g (find P (h x)))) \<Longrightarrow>
   for_loop body xs = Inr (map_option g (find P (concat (map h xs))))"
  by (induction xs) (auto simp: find_append_case split: option.splits)

lemma region_body_find:
  "has_id_name r \<Longrightarrow> region_body city r = Inr (map_option node_id (find (named city) [r]))"
  by (auto simp: region_body_def has_id_name_def named_def node_id_def ebind_def py_eq_str_def
           split: sum.splits)

lemma for_loop_regions:
  assumes "list_all has_id_name rs"
  shows "for_loop (region_body city) rs = Inr (map_option node_id (find (named city) rs))"
proof -
  have "for_loop (region_body city) rs =
        Inr (map_option node_id (find (named city) (concat (map (\<lambda>r. [r]) rs))))"
    using assms by (intro for_loop_concat region_body_find) (simp add: list_all_iff)
  then show ?thesis by simp
qed

lemma py_contains_dict: "py_contains k (PDict kvs) = Inr (map_of kvs k \<noteq> None)"
  by (simp add: map_of_eq_None_iff)

lemma country_body_find:
  assumes "wf_country c"
  shows "country_body city c = Inr (map_option node_id (find (named city) (searched_of_country c)))"
proof -
  from assms obtain kvs where c: "c = PDict kvs"
    by (cases c) (auto simp: wf_country_def has_id_name_def)
  show ?thesis
  proof (cases "map_of kvs ''areas''")
    case None
    with assms c show ?thesis
      by (auto simp: country_body_def has_areas_def py_contains_dict ebind_def searched_of_country_def
            sub_areas_def wf_country_def has_id_name_def named_def node_id_def py_eq_str_def
            split: sum.splits simp del: py_contains.simps)
  next
    case (Some a)
    with assms c obtain rs where a: "a = PList rs" and rs: "list_all has_id_name rs"
      by (auto simp: wf_country_def split: pyval.splits)
    show ?thesis
    proof (cases "rs = []")
      case True
      with assms c Some a show ?thesis
        by (auto simp: country_body_def has_areas_def py_contains_dict ebind_def searched_of_country_def
            sub_areas_def wf_country_def has_id_name_def named_def node_id_def py_eq_str_def
            split: sum.splits simp del: py_contains.simps)
    next
      case False
      with c Some a for_loop_regions [OF rs, of city] show ?thesis
        by (simp add: country_body_def has_areas_def py_contains_dict ebind_def searched_of_country_def
            sub_areas_def del: py_contains.simps)
    qed
  qed
qed

lemma area_body_find:
  assumes "wf_area a"
  shows "area_body city a =
         Inr (map_option node_id (find (named city) (concat (map searched_of_country (sub_areas a)))))"
proof -
  from assms obtain cs where cs: "py_getitem a ''areas'' = Inr (PList cs)" "list_all wf_country cs"
    by (auto simp: wf_area_def split: sum.splits pyval.splits)
  have "for_loop (country_body city) cs =
        Inr (map_option node_id (find (named city) (concat (map searched_of_country cs))))"
    using cs(2) by (intro for_loop_concat country_body_find) (simp add: list_all_iff)
  with cs(1) show ?thesis
    by (simp add: area_body_def ebind_def sub_areas_def)
qed

lemma for_loop_areas:
  assumes "list_all wf_area areas"
  shows "for_loop (area_body city) areas = Inr (map_option node_id (find (named city) (searched areas)))"
  unfolding searched_def using assms
  by (intro for_loop_concat area_body_find) (simp add: list_all_iff)

lemma get_city_id_first_match:
  assumes "net w areas_request = Response code (Some (PList areas))" "list_all wf_area areas" "city \<noteq> []"
  shows "get_city_id city w = (Inr (first_match city (searched areas)), w\<lparr>sent := sent w @ [areas_request]\<rparr>)"
  using assms for_loop_areas [OF assms(2), of city]
  by (simp add: get_city_id_def requests_get_def response_json_def ebind_def first_match_def returned_def
      split: option.splits)


lemma find_distinct_map:
  "distinct (map f xs) \<Longrightarrow> n \<in> set xs \<Longrightarrow> find (\<lambda>x. f x = f n) xs = Some n"
  by (induction xs) (auto simp: image_iff)

lemma first_match_distinct:
  assumes "distinct (map (\<lambda>n. py_getitem n ''name'') ns)" "n \<in> set ns" "named city n"
  shows "first_match city ns = node_id n"
proof -
  from assms(3) have "named city = (\<lambda>x. py_getitem x ''name'' = py_getitem n ''name'')"
    by (auto simp: named_def fun_eq_iff)
  with find_distinct_map [OF assms(1,2)] show ?thesis
    by (simp add: first_match_def)
qed

lemma first_match_none:
  assumes "\<not> list_ex (named city) ns"
  shows "first_match city ns = PNone"
proof -
  from assms have "find (named city) ns = None"
    by (simp add: find_None_iff list_ex_iff)
  then show ?thesis by (simp add: first_match_def)
qed

lemma country_searched:
  "a \<in> set areas \<Longrightarrow> c \<in> set (sub_areas a) \<Longrightarrow> n \<in> set (searched_of_country c) \<Longrightarrow>
   n \<in> set (searched areas)"
  by (auto simp: searched_def)

lemma region_searched:
  "a \<in> set areas \<Longrightarrow> c \<in> set (sub_areas a) \<Longrightarrow> r \<in> set (sub_areas c) \<Longrightarrow> r \<in> set (searched areas)"
proof -
  assume a: "a \<in> set areas" and c: "c \<in> set (sub_areas a)" and r: "r \<in> set (sub_areas c)"
  from r have "sub_areas c \<noteq> []" by auto
  with r have "r \<in> set (searched_of_country c)" by (simp add: searched_of_country_def)
  with a c show ?thesis by (rule country_searched)
qed

lemma leaf_searched:
  "a \<in> set areas \<Longrightarrow> c \<in> set (sub_areas a) \<Longrightarrow> sub_areas c = [] \<Longrightarrow> c \<in> set (searched areas)"
  using country_searched [of a areas c c] by (simp add: searched_of_country_def)

text \<open>
  C4, as the code has it. The catalog is a list of top-level entries, each with a list
  \<^verbatim>\<open>areas\<close> of second-level nodes, each of which may have a list \<^verbatim>\<open>areas\<close> of third-level
  nodes. The nodes searched are, in catalog order, the third-level nodes of every
  second-level node that has some, and the second-level node itself where it has none.
  With an empty city name \<^verbatim>\<open>get_city_id\<close> returns \<^verbatim>\<open>None\<close> and sends no request. With a
  non-empty one it sends one request and returns the id of the first searched node whose name
  is the city name, \<^verbatim>\<open>None\<close> when there is none. So, where the searched nodes have distinct
  names, a city name that is the name of a third-level node returns that node's id, and one
  that is the name of a childless second-level node returns that node's id; a city name that
  matches no searched node, as one that matches only a top-level entry, returns \<^verbatim>\<open>None\<close>.
\<close>

theorem get_city_id_resolution:
  assumes "net w areas_request = Response code (Some (PList areas))"
      and "list_all wf_area areas"
  shows "get_city_id [] w = (Inr PNone, w)
     \<and> (city \<noteq> [] \<longrightarrow>
          get_city_id city w =
            (Inr (first_match city (searched areas)), w\<lparr>sent := sent w @ [areas_request]\<rparr>))
     \<and> (city \<noteq> [] \<and> distinct (map (\<lambda>n. py_getitem n ''name'') (searched areas)) \<longrightarrow>
          (\<forall>a \<in> set areas. \<forall>c \<in> set (sub_areas a).
             (\<forall>r \<in> set (sub_areas c). named city r \<longrightarrow> fst (get_city_id city w) = Inr (node_id r))
             \<and> (sub_areas c = [] \<and> named city c \<longrightarrow> fst (get_city_id city w) = Inr (node_id c))))
     \<and> (city \<noteq> [] \<and> \<not> list_ex (named city) (searched areas) \<longrightarrow>
          fst (get_city_id city w) = Inr PNone)"
proof (intro conjI impI ballI)
  show "get_city_id [] w = (Inr PNone, w)" by (simp add: get_city_id_def)
next
  assume "city \<noteq> []"
  then show "get_city_id city w =
      (Inr (first_match city (searched areas)), w\<lparr>sent := sent w @ [areas_request]\<rparr>)"
    using assms by (rule get_city_id_first_match [rotated 2])
next
  fix a c r
  assume h: "city \<noteq> [] \<and> distinct (map (\<lambda>n. py_getitem n ''name'') (searched areas))"
    and m: "a \<in> set areas" "c \<in> set (sub_areas a)" "r \<in> set (sub_areas c)" "named city r"
  from h assms have "fst (get_city_id city w) = Inr (first_match city (searched areas))"
    by (simp add: get_city_id_first_match)
  with h m show "fst (get_city_id city w) = Inr (node_id r)"
    by (simp add: first_match_distinct region_searched)
next
  fix a c
  assume h: "city \<noteq> [] \<and> distinct (map (\<lambda>n. py_getitem n ''name'') (searched areas))"
    and m: "a \<in> set areas" "c \<in> set (sub_areas a)" "sub_areas c = [] \<and> named city c"
  from h assms have "fst (get_city_id city w) = Inr (first_match city (searched areas))"
    by (simp add: get_city_id_first_match)
  with h m show "fst (get_city_id city w) = Inr (node_id c)"
    by (simp add: first_match_distinct leaf_searched)
next
  assume h: "city \<noteq> [] \<and> \<not> list_ex (named city) (searched areas)"
  with assms have "fst (get_city_id city w) = Inr (first_match city (searched areas))"
    by (simp add: get_city_id_first_match)
  with h show "fst (get_city_id city w) = Inr PNone"
    by (simp add: first_match_none)
qed

lemma catalog_example_wf: "list_all wf_area catalog_example"
  by (simp add: catalog_example_def wf_area_def wf_country_def has_id_name_def)

lemma catalog_example_searched:
  "searched catalog_example =
     [PDict [(''id'', PStr ''1''), (''parent_id'', PStr ''113''),
             (''name'', PStr ''Moscow''), (''areas'', PList [])],
      PDict [(''id'', PStr ''2034''), (''parent_id'', PStr ''2019''),
             (''name'', PStr ''Khimki''), (''areas'', PList [])]]"
  by (simp add: catalog_example_def searched_def searched_of_country_def sub_areas_def)

theorem get_city_id_resolution_witness:
  "net (world_answering (Response 200 (Some (PList catalog_example)))) areas_request
     = Response 200 (Some (PList catalog_example))
   \<and> list_all wf_area catalog_example
   \<and> distinct (map (\<lambda>n. py_getitem n ''name'') (searched catalog_example))
   \<and> fst (get_city_id ''Khimki'' (world_answering (Response 200 (Some (PList catalog_example)))))
       = Inr (PStr ''2034'')
   \<and> fst (get_city_id ''Moscow'' (world_answering (Response 200 (Some (PList catalog_example)))))
       = Inr (PStr ''1'')
   \<and> fst (get_city_id ''Russia'' (world_answering (Response 200 (Some (PList catalog_example)))))
       = Inr PNone"
  using get_city_id_resolution
          [of "world_answering (Response 200 (Some (PList catalog_example)))" 200 catalog_example
              "''Khimki''"]
        get_city_id_resolution
          [of "world_answering (Response 200 (Some (PList catalog_example)))" 200 catalog_example
              "''Moscow''"]
        get_city_id_resolution
          [of "world_answering (Response 200 (Some (PList catalog_example)))" 200 catalog_example
              "''Russia''"]
  by (simp add: catalog_example_wf catalog_example_searched first_match_def named_def node_id_def
      world_answering_def)

text \<open>
  C4 as stated fails on a top-level node without children: the loops never compare the
  name of a top-level entry, so the city name \<^verbatim>\<open>Other regions\<close>, which matches only the
  childless top-level entry with id 1001, returns \<^verbatim>\<open>None\<close> instead of that id.
\<close>

theorem get_city_id_top_level_counterexample:
  "fst (get_city_id ''Other regions'' (world_answering (Response 200 (Some (PList catalog_example)))))
     = Inr PNone"
  by (simp add: get_city_id_def requests_get_def response_json_def ebind_def world_answering_def
      catalog_example_def area_body_def country_body_def region_body_def has_areas_def
      py_eq_str_def returned_def)

section \<open>Normalization of the payloads\<close>

lemma ebind_Inr: "(ebind r f = Inr v) = (\<exists>x. r = Inr x \<and> f x = Inr v)"
  by (cases r) (simp_all add: ebind_def)

lemma append_each_all2:
  "append_each f xs acc = Inr vs \<Longrightarrow> \<exists>vs'. vs = acc @ vs' \<and> list_all2 (\<lambda>x v. f x = Inr v) xs vs'"
proof (induction xs arbitrary: acc)
  case Nil
  then show ?case by simp
next
  case (Cons x xs)
  then obtain v where v: "f x = Inr v" and rest: "append_each f xs (acc @ [v]) = Inr vs"
    by (auto split: sum.splits)
  from Cons.IH [OF rest] obtain vs' where "vs = (acc @ [v]) @ vs'" "list_all2 (\<lambda>x v. f x = Inr v) xs vs'"
    by blast
  with v show ?case by auto
qed

lemma list_all2_right:
  "list_all2 P xs ys \<Longrightarrow> (\<And>x y. P x y \<Longrightarrow> Q y) \<Longrightarrow> list_all Q ys"
  by (induction rule: list_all2_induct) auto

lemma py_get_field: "py_get d k PNone = Inr x \<Longrightarrow> field d k = x"
  by (cases d) (auto simp: field_def split: option.splits)

lemma hh_parse_items:
  assumes "hh_parse d = Inr vs"
  shows "list_all2 (\<lambda>x v. hh_parse_item x = Inr v) (hh_items d) vs"
proof -
  from assms obtain its xs where its: "py_get d ''items'' PNone = Inr its" and xs: "py_iter its = Inr xs"
    and ae: "append_each hh_parse_item xs [] = Inr vs"
    by (auto simp: hh_parse_def ebind_def split: sum.splits)
  from its xs have "hh_items d = xs" by (simp add: hh_items_def py_get_field)
  with append_each_all2 [OF ae] show ?thesis by simp
qed

lemma sj_parse_items:
  assumes "sj_parse d = Inr vs"
  shows "list_all2 (\<lambda>x v. sj_parse_item x = Inr v) (sj_items d) vs"
proof -
  from assms obtain its xs where its: "py_get d ''objects'' PNone = Inr its" and xs: "py_iter its = Inr xs"
    and ae: "append_each sj_parse_item xs [] = Inr vs"
    by (auto simp: sj_parse_def ebind_def split: sum.splits)
  from its xs have "sj_items d = xs" by (simp add: sj_items_def py_get_field)
  with append_each_all2 [OF ae] show ?thesis by simp
qed

lemma hh_parse_item_salary:
  "hh_parse_item item = Inr v \<Longrightarrow> hh_salary item = Inr (salary_from v, salary_to v, currency v)"
  unfolding hh_parse_item_def by (clarsimp simp: ebind_Inr)

lemma py_get_absent_or_null: "absent_or_null s k \<Longrightarrow> py_get (PDict s) k PNone = Inr PNone"
  by (auto simp: absent_or_null_def)

lemma hh_no_salary_triple:
  assumes "hh_no_salary item"
  shows "hh_salary item = Inr (None, None, None)"
proof -
  from assms obtain kvs where item: "item = PDict kvs"
    by (cases item) (simp_all add: hh_no_salary_def)
  show ?thesis
  proof (cases "map_of kvs ''salary''")
    case None
    with item show ?thesis by (simp add: hh_salary_def ebind_def)
  next
    case (Some sal)
    show ?thesis
    proof (cases "py_truthy sal")
      case False
      with item Some show ?thesis by (simp add: hh_salary_def ebind_def)
    next
      case True
      with assms item Some obtain s where s: "sal = PDict s"
        "absent_or_null s ''from''" "absent_or_null s ''to''" "absent_or_null s ''currency''"
        by (cases sal) (simp_all add: hh_no_salary_def)
      from item Some have "py_get item ''salary'' (PDict []) = Inr sal" by simp
      with True s show ?thesis
        by (simp add: hh_salary_def ebind_def unless_none_def py_get_absent_or_null
                 del: py_get.simps)
    qed
  qed
qed

lemma sj_parse_item_currency_text:
  "sj_parse_item item = Inr v \<Longrightarrow>
   \<exists>c. currency v = Some c \<and> py_str (field item ''currency'') = Inr c"
  unfolding sj_parse_item_def by (auto simp: ebind_Inr dest: py_get_field)

lemma sj_parse_item_no_salary:
  assumes "sj_parse_item item = Inr v" "sj_no_salary item"
  shows "salary_from v = None \<and> salary_to v = None"
proof -
  from assms(1) obtain a b where
    a: "py_get item ''payment_from'' PNone = Inr a" "unless_zero py_float a = Inr (salary_from v)" and
    b: "py_get item ''payment_to'' PNone = Inr b" "unless_zero py_float b = Inr (salary_to v)"
    unfolding sj_parse_item_def by (auto simp: ebind_Inr)
  from a(1) b(1) assms(2) have "py_eq_int a 0" "py_eq_int b 0"
    by (auto simp: sj_no_salary_def dest: py_get_field)
  with a(2) b(2) show ?thesis by (simp add: unless_zero_def)
qed

text \<open>
  C1, as the code has it. Board A: every vacancy parsed from an item that carries no salary
  information has \<^verbatim>\<open>salary_from\<close>, \<^verbatim>\<open>salary_to\<close> and \<^verbatim>\<open>currency\<close> all absent. Board B: the
  currency of every parsed vacancy is present, and it is the text \<^verbatim>\<open>str(item.get('currency'))\<close>,
  whatever the item says about the salary; a vacancy parsed from an item with no salary data
  has \<^verbatim>\<open>salary_from\<close> and \<^verbatim>\<open>salary_to\<close> absent, and its currency present all the same.
\<close>

theorem no_salary_fields_absent:
  "(hh_parse d = Inr vs \<longrightarrow>
      list_all2 (\<lambda>item v. hh_no_salary item \<longrightarrow>
                   salary_from v = None \<and> salary_to v = None \<and> currency v = None) (hh_items d) vs)
   \<and> (sj_parse d' = Inr vs' \<longrightarrow>
      list_all2 (\<lambda>item v. (\<exists>c. currency v = Some c \<and> py_str (field item ''currency'') = Inr c)
                         \<and> (sj_no_salary item \<longrightarrow> salary_from v = None \<and> salary_to v = None))
                (sj_items d') vs')"
proof (intro conjI impI)
  assume "hh_parse d = Inr vs"
  from hh_parse_items [OF this] show "list_all2 (\<lambda>item v. hh_no_salary item \<longrightarrow>
       salary_from v = None \<and> salary_to v = None \<and> currency v = None) (hh_items d) vs"
  proof (rule list_all2_mono)
    fix item v
    assume "hh_parse_item item = Inr v"
    then have "hh_salary item = Inr (salary_from v, salary_to v, currency v)"
      by (rule hh_parse_item_salary)
    then show "hh_no_salary item \<longrightarrow> salary_from v = None \<and> salary_to v = None \<and> currency v = None"
      by (auto dest: hh_no_salary_triple)
  qed
next
  assume "sj_parse d' = Inr vs'"
  from sj_parse_items [OF this]
  show "list_all2 (\<lambda>item v. (\<exists>c. currency v = Some c \<and> py_str (field item ''currency'') = Inr c)
                         \<and> (sj_no_salary item \<longrightarrow> salary_from v = None \<and> salary_to v = None))
                (sj_items d') vs'"
  proof (rule list_all2_mono)
    fix item v
    assume p: "sj_parse_item item = Inr v"
    show "(\<exists>c. currency v = Some c \<and> py_str (field item ''currency'') = Inr c)
          \<and> (sj_no_salary item \<longrightarrow> salary_from v = None \<and> salary_to v = None)"
      using sj_parse_item_currency_text [OF p] sj_parse_item_no_salary [OF p] by blast
  qed
qed

lemma unless_none_Some:
  "unless_none f x = Inr r \<Longrightarrow> (r \<noteq> None) = (x \<noteq> PNone) \<and> (\<forall>y. r = Some y \<longrightarrow> f x = Inr y)"
  by (auto simp: unless_none_def ebind_Inr split: if_splits)

lemma unless_zero_Some:
  "unless_zero f x = Inr r \<Longrightarrow> (r \<noteq> None) = (\<not> py_eq_int x 0) \<and> (\<forall>y. r = Some y \<longrightarrow> f x = Inr y)"
  by (auto simp: unless_zero_def ebind_Inr split: if_splits)

lemma hh_salary_sources:
  assumes "hh_salary item = Inr (f, t, c)"
  shows "unless_none py_float (field (field item ''salary'') ''from'') = Inr f
       \<and> unless_none py_float (field (field item ''salary'') ''to'') = Inr t"
proof -
  from assms obtain sal where sal: "py_get item ''salary'' (PDict []) = Inr sal"
    by (auto simp: hh_salary_def ebind_Inr)
  show ?thesis
  proof (cases "py_truthy sal")
    case False
    with assms sal have ftc: "f = None" "t = None" by (simp_all add: hh_salary_def ebind_def)
    from sal False have "field (field item ''salary'') k = PNone" for k
      by (cases item; cases sal) (auto simp: field_def split: option.splits)
    with ftc show ?thesis by (simp add: unless_none_def)
  next
    case True
    with assms sal obtain x y where
      x: "py_get sal ''from'' PNone = Inr x" "unless_none py_float x = Inr f" and
      y: "py_get sal ''to'' PNone = Inr y" "unless_none py_float y = Inr t"
      by (auto simp: hh_salary_def ebind_Inr)
    from x(1) obtain s where s: "sal = PDict s" by (cases sal) auto
    with sal True have "field item ''salary'' = sal"
      by (cases item) (auto simp: field_def split: option.splits)
    with x y show ?thesis by (simp add: py_get_field)
  qed
qed

lemma sj_parse_item_sources:
  assumes "sj_parse_item item = Inr v"
  shows "unless_zero py_float (field item ''payment_from'') = Inr (salary_from v)"
    and "unless_zero py_float (field item ''payment_to'') = Inr (salary_to v)"
  using assms unfolding sj_parse_item_def
  by (auto simp: ebind_Inr dest: py_get_field)

lemma hh_parse_item_bounds:
  assumes "hh_parse_item item = Inr v"
  shows "hh_bound_rule (field (field item ''salary'') ''from'') (salary_from v)
       \<and> hh_bound_rule (field (field item ''salary'') ''to'') (salary_to v)"
  using hh_salary_sources [OF hh_parse_item_salary [OF assms]]
  by (auto simp: hh_bound_rule_def dest!: unless_none_Some)

lemma sj_parse_item_bounds:
  assumes "sj_parse_item item = Inr v"
  shows "sj_bound_rule (field item ''payment_from'') (salary_from v)
       \<and> sj_bound_rule (field item ''payment_to'') (salary_to v)"
proof -
  have "sj_bound_rule x b" if "unless_zero py_float x = Inr b" for x b
  proof -
    from that have "x \<noteq> PNone \<or> py_eq_int x 0"
      by (auto simp: unless_zero_def ebind_Inr split: if_splits)
    with unless_zero_Some [OF that] show ?thesis
      by (auto simp: sj_bound_rule_def)
  qed
  with sj_parse_item_sources [OF assms] show ?thesis by simp
qed

text \<open>
  C2, as the code has it. Board A: a salary bound is parsed exactly when its source value,
  \<^verbatim>\<open>salary.from\<close> or \<^verbatim>\<open>salary.to\<close>, is present and not \<^verbatim>\<open>null\<close>; a source value of zero is
  parsed, as 0.0. Board B: a salary bound is parsed exactly when its source value,
  \<^verbatim>\<open>payment_from\<close> or \<^verbatim>\<open>payment_to\<close>, is present and not equal to zero; a source value of zero
  gives an absent bound. In both, a parsed bound is \<^verbatim>\<open>float\<close> of the source value.
\<close>

theorem salary_bounds_parsed:
  "(hh_parse d = Inr vs \<longrightarrow>
      list_all2 (\<lambda>item v. hh_bound_rule (field (field item ''salary'') ''from'') (salary_from v)
                         \<and> hh_bound_rule (field (field item ''salary'') ''to'') (salary_to v))
                (hh_items d) vs)
   \<and> (sj_parse d' = Inr vs' \<longrightarrow>
      list_all2 (\<lambda>item v. sj_bound_rule (field item ''payment_from'') (salary_from v)
                         \<and> sj_bound_rule (field item ''payment_to'') (salary_to v))
                (sj_items d') vs')"
proof (intro conjI impI)
  assume "hh_parse d = Inr vs"
  from hh_parse_items [OF this]
  show "list_all2 (\<lambda>item v. hh_bound_rule (field (field item ''salary'') ''from'') (salary_from v)
                         \<and> hh_bound_rule (field (field item ''salary'') ''to'') (salary_to v))
                (hh_items d) vs"
    by (rule list_all2_mono) (rule hh_parse_item_bounds)
next
  assume "sj_parse d' = Inr vs'"
  from sj_parse_items [OF this]
  show "list_all2 (\<lambda>item v. sj_bound_rule (field item ''payment_from'') (salary_from v)
                         \<and> sj_bound_rule (field item ''payment_to'') (salary_to v))
                (sj_items d') vs'"
    by (rule list_all2_mono) (rule sj_parse_item_bounds)
qed

subsection \<open>The example payloads, parsed\<close>

lemmas parse_defs =
  hh_parse_def hh_parse_item_def hh_salary_def sj_parse_def sj_parse_item_def ebind_def
  unless_none_def unless_zero_def int_of_str_def int_of_ascii_def is_ascii_def is_space_def
  is_digit_def digits_value_def Let_def

lemma hh_parse_example_null:
  "hh_parse (hh_payload_example PNone) = Inr [hh_vacancy_example None None None]"
  by (simp add: hh_payload_example_def hh_item_example_def hh_vacancy_example_def parse_defs)

lemma hh_parse_example_from:
  "hh_parse (hh_payload_example (PDict [(''from'', PInt 100000), (''to'', PNone), (''currency'', PStr ''RUR'')]))
     = Inr [hh_vacancy_example (Some 100000) None (Some ''RUR'')]"
  by (simp add: hh_payload_example_def hh_item_example_def hh_vacancy_example_def parse_defs)

lemma sj_parse_example_to:
  "sj_parse (sj_payload_example [(''payment_from'', PInt 0), (''payment_to'', PInt 150000), (''currency'', PStr ''rub'')])
     = Inr [sj_vacancy_example None (Some 150000) (Some ''rub'')]"
  by (simp add: sj_payload_example_def sj_item_example_def sj_vacancy_example_def parse_defs)

lemma hh_items_example: "hh_items (hh_payload_example s) = [hh_item_example s]"
  by (simp add: hh_items_def field_def hh_payload_example_def)

lemma sj_items_example: "sj_items (sj_payload_example p) = [sj_item_example p]"
  by (simp add: sj_items_def field_def sj_payload_example_def)

lemma hh_item_example_salary: "field (hh_item_example s) ''salary'' = s"
  by (simp add: field_def hh_item_example_def)

lemma sj_item_example_payment:
  "field (sj_item_example [(''payment_from'', a), (''payment_to'', b), (''currency'', c)]) ''payment_from'' = a"
  "field (sj_item_example [(''payment_from'', a), (''payment_to'', b), (''currency'', c)]) ''payment_to'' = b"
  by (simp_all add: field_def sj_item_example_def)

lemma sj_parse_example_zero:
  "sj_parse (sj_payload_example [(''payment_from'', PInt 0), (''payment_to'', PInt 0), (''currency'', PStr ''rub'')])
     = Inr [sj_vacancy_example None None (Some ''rub'')]"
  by (simp add: sj_payload_example_def sj_item_example_def sj_vacancy_example_def parse_defs)

lemma sj_item_example_currency:
  "field (sj_item_example [(''payment_from'', a), (''payment_to'', b), (''currency'', c)]) ''currency'' = c"
  by (simp add: field_def sj_item_example_def)

theorem no_salary_fields_absent_witness:
  "hh_parse (hh_payload_example PNone) = Inr [hh_vacancy_example None None None]
   \<and> hh_no_salary (hh_item_example PNone)
   \<and> salary_from (hh_vacancy_example None None None) = None
   \<and> salary_to (hh_vacancy_example None None None) = None
   \<and> currency (hh_vacancy_example None None None) = None
   \<and> sj_parse (sj_payload_example [(''payment_from'', PInt 0), (''payment_to'', PInt 0), (''currency'', PStr ''rub'')])
       = Inr [sj_vacancy_example None None (Some ''rub'')]
   \<and> sj_no_salary (sj_item_example [(''payment_from'', PInt 0), (''payment_to'', PInt 0), (''currency'', PStr ''rub'')])
   \<and> py_str (field (sj_item_example [(''payment_from'', PInt 0), (''payment_to'', PInt 0), (''currency'', PStr ''rub'')]) ''currency'')
       = Inr ''rub''
   \<and> currency (sj_vacancy_example None None (Some ''rub'')) = Some ''rub''
   \<and> salary_from (sj_vacancy_example None None (Some ''rub'')) = None
   \<and> salary_to (sj_vacancy_example None None (Some ''rub'')) = None"
proof -
  have n: "hh_no_salary (hh_item_example PNone)"
    by (simp add: hh_no_salary_def hh_item_example_def)
  have z: "sj_no_salary (sj_item_example [(''payment_from'', PInt 0), (''payment_to'', PInt 0), (''currency'', PStr ''rub'')])"
    by (simp add: sj_no_salary_def sj_item_example_payment)
  from no_salary_fields_absent
          [of "hh_payload_example PNone" "[hh_vacancy_example None None None]"
              "sj_payload_example [(''payment_from'', PInt 0), (''payment_to'', PInt 0), (''currency'', PStr ''rub'')]"
              "[sj_vacancy_example None None (Some ''rub'')]"]
  show ?thesis
    by (simp add: hh_parse_example_null sj_parse_example_zero hh_items_example sj_items_example
        sj_item_example_currency n z)
qed

theorem salary_bounds_parsed_witness:
  "hh_parse (hh_payload_example (PDict [(''from'', PInt 100000), (''to'', PNone), (''currency'', PStr ''RUR'')]))
     = Inr [hh_vacancy_example (Some 100000) None (Some ''RUR'')]
   \<and> sj_parse (sj_payload_example [(''payment_from'', PInt 0), (''payment_to'', PInt 150000), (''currency'', PStr ''rub'')])
       = Inr [sj_vacancy_example None (Some 150000) (Some ''rub'')]
   \<and> hh_bound_rule (PInt 100000) (Some 100000) \<and> hh_bound_rule PNone None
   \<and> sj_bound_rule (PInt 0) None \<and> sj_bound_rule (PInt 150000) (Some 150000)"
proof -
  have f: "field (PDict [(''from'', PInt 100000), (''to'', PNone), (''currency'', PStr ''RUR'')]) ''from'' = PInt 100000"
          "field (PDict [(''from'', PInt 100000), (''to'', PNone), (''currency'', PStr ''RUR'')]) ''to'' = PNone"
    by (simp_all add: field_def)
  have v: "salary_from (hh_vacancy_example a b c) = a" "salary_to (hh_vacancy_example a b c) = b"
          "salary_from (sj_vacancy_example a b c) = a" "salary_to (sj_vacancy_example a b c) = b"
    for a b c
    by (simp_all add: hh_vacancy_example_def sj_vacancy_example_def)
  from salary_bounds_parsed
          [of "hh_payload_example (PDict [(''from'', PInt 100000), (''to'', PNone), (''currency'', PStr ''RUR'')])"
              "[hh_vacancy_example (Some 100000) None (Some ''RUR'')]"
              "sj_payload_example [(''payment_from'', PInt 0), (''payment_to'', PInt 150000), (''currency'', PStr ''rub'')]"
              "[sj_vacancy_example None (Some 150000) (Some ''rub'')]"]
  show ?thesis
    by (simp add: hh_parse_example_from sj_parse_example_to hh_items_example sj_items_example
        hh_item_example_salary sj_item_example_payment f v)
qed

text \<open>
  C1 as stated fails on Board B: an item with \<^verbatim>\<open>payment_from = 0\<close>, \<^verbatim>\<open>payment_to = 0\<close> and no
  \<^verbatim>\<open>currency\<close> key gives a vacancy whose two bounds are absent and whose currency is the
  text \<^verbatim>\<open>None\<close>.
\<close>

theorem sj_currency_counterexample:
  "sj_parse (sj_payload_example [(''payment_from'', PInt 0), (''payment_to'', PInt 0)])
     = Inr [sj_vacancy_example None None (Some ''None'')]"
  by (simp add: sj_payload_example_def sj_item_example_def sj_vacancy_example_def parse_defs)

text \<open>
  C2 as stated fails on Board A: a salary object with \<^verbatim>\<open>from = 0\<close> and \<^verbatim>\<open>to = 0\<close> gives a
  vacancy with both bounds present and equal to 0.0.
\<close>

theorem hh_zero_salary_counterexample:
  "hh_parse (hh_payload_example (PDict [(''from'', PInt 0), (''to'', PInt 0), (''currency'', PStr ''RUR'')]))
     = Inr [hh_vacancy_example (Some 0) (Some 0) (Some ''RUR'')]"
  by (simp add: hh_payload_example_def hh_item_example_def hh_vacancy_example_def parse_defs)

text \<open>
  C3 fails on the code. A Board A item that omits the key \<^verbatim>\<open>snippet\<close> makes \<^verbatim>\<open>_parse\<close> call
  \<^verbatim>\<open>.get\<close> on the placeholder string, the default given for \<^verbatim>\<open>snippet\<close>, which raises
  \<^verbatim>\<open>AttributeError\<close>: no vacancy is produced, and the error leaves \<^verbatim>\<open>get_request\<close>. The defaults
  for \<^verbatim>\<open>employer\<close> and \<^verbatim>\<open>area\<close> in the same call are empty dicts.
\<close>

theorem hh_missing_snippet_raises:
  "fst (hh_get_request (PStr ''python'') PNone PNone PNone PNone
         (world_answering (Response 200
            (Some (PDict [(''items'', PList [hh_item_without_snippet]), (''found'', PInt 1)])))))
     = Inl AttributeError"
  by (simp add: hh_get_request_def requests_get_def response_json_def world_answering_def
      except_RequestException_def is_RequestException_def hh_item_without_snippet_def parse_defs)

end
